theory Spec2Isabelle
  imports Main "HOL-Library.Finite_Map"
begin

section \<open>JavaScript values\<close>

text \<open>
  The values that flow through the store: action payloads, the \<open>user\<close> and \<open>error\<close>
  fields, tokens, collaborator results and thrown errors. An object is the finite map of
  its own enumerable properties; the order of enumeration is not represented (the code
  never observes it). Numbers are only copied, never computed with. A character of a
  \<open>string\<close> stands for one code unit of a JavaScript string.
\<close>

datatype jsval =
    JUndefined
  | JNull
  | JBool bool
  | JNum int
  | JStr string
  | JArr "jsval list"
  | JObj "(string, jsval) fmap"

text \<open>A value is absent when it is \<open>null\<close> or \<open>undefined\<close>, present otherwise.\<close>

definition absent :: "jsval \<Rightarrow> bool" where
  "absent v = (v = JNull \<or> v = JUndefined)"

definition present :: "jsval \<Rightarrow> bool" where
  "present v = (\<not> absent v)"

text \<open>The truthiness that \<open>!token\<close> tests.\<close>

fun truthy :: "jsval \<Rightarrow> bool" where
  "truthy JUndefined = False"
| "truthy JNull = False"
| "truthy (JBool b) = b"
| "truthy (JNum n) = (n \<noteq> 0)"
| "truthy (JStr s) = (s \<noteq> [])"
| "truthy (JArr xs) = True"
| "truthy (JObj m) = True"

text \<open>The property key of an array or string index: the index in decimal.\<close>

definition digit_char :: "nat \<Rightarrow> char" where
  "digit_char d = char_of (48 + d)"

function index_key :: "nat \<Rightarrow> string" where
  "index_key n = (if n < 10 then [digit_char n] else index_key (n div 10) @ [digit_char (n mod 10)])"
  by pat_completeness auto
termination
  by (relation "measure (\<lambda>n. n)") auto

definition indexed :: "jsval list \<Rightarrow> (string, jsval) fmap" where
  "indexed xs = fmap_of_list (zip (map index_key [0..<length xs]) xs)"

text \<open>
  The own enumerable properties that an object spread \<open>{...v}\<close> copies: none for
  \<open>null\<close>, \<open>undefined\<close>, booleans and numbers; the indexed code units of a string;
  the indexed elements of an array; the properties of an object.
\<close>

fun own_props :: "jsval \<Rightarrow> (string, jsval) fmap" where
  "own_props JUndefined = fmempty"
| "own_props JNull = fmempty"
| "own_props (JBool b) = fmempty"
| "own_props (JNum n) = fmempty"
| "own_props (JStr s) = indexed (map (\<lambda>c. JStr [c]) s)"
| "own_props (JArr xs) = indexed xs"
| "own_props (JObj m) = m"

text \<open>The object literal \<open>{ ...a, ...b }\<close>: the properties of \<open>b\<close> override those of \<open>a\<close>.\<close>

definition spread2 :: "jsval \<Rightarrow> jsval \<Rightarrow> jsval" where
  "spread2 a b = JObj (own_props a ++\<^sub>f own_props b)"

section \<open>The store: state, actions, reducer\<close>

record state =
  user :: jsval
  isAuthenticated :: bool
  isLoading :: bool
  error :: jsval

record action =
  type :: string
  payload :: jsval

definition initialState :: state where
  "initialState = \<lparr>user = JNull, isAuthenticated = False, isLoading = True, error = JNull\<rparr>"

definition LOGIN_START :: string where "LOGIN_START = ''LOGIN_START''"
definition LOGIN_SUCCESS :: string where "LOGIN_SUCCESS = ''LOGIN_SUCCESS''"
definition LOGIN_FAILURE :: string where "LOGIN_FAILURE = ''LOGIN_FAILURE''"
definition LOGOUT :: string where "LOGOUT = ''LOGOUT''"
definition REGISTER_START :: string where "REGISTER_START = ''REGISTER_START''"
definition REGISTER_SUCCESS :: string where "REGISTER_SUCCESS = ''REGISTER_SUCCESS''"
definition REGISTER_FAILURE :: string where "REGISTER_FAILURE = ''REGISTER_FAILURE''"
definition LOAD_USER_START :: string where "LOAD_USER_START = ''LOAD_USER_START''"
definition LOAD_USER_SUCCESS :: string where "LOAD_USER_SUCCESS = ''LOAD_USER_SUCCESS''"
definition LOAD_USER_FAILURE :: string where "LOAD_USER_FAILURE = ''LOAD_USER_FAILURE''"
definition UPDATE_PROFILE_SUCCESS :: string where "UPDATE_PROFILE_SUCCESS = ''UPDATE_PROFILE_SUCCESS''"
definition CLEAR_ERROR :: string where "CLEAR_ERROR = ''CLEAR_ERROR''"

text \<open>
  The \<open>switch\<close> over \<open>action.type\<close>, case groups in the order of the source; the spread
  \<open>...state\<close> keeps every field that the branch does not set.
\<close>

definition authReducer :: "state \<Rightarrow> action \<Rightarrow> state" where
  "authReducer state action =
    (if type action = LOGIN_START \<or> type action = REGISTER_START
        \<or> type action = LOAD_USER_START then
       state\<lparr>isLoading := True, error := JNull\<rparr>
     else if type action = LOGIN_SUCCESS \<or> type action = REGISTER_SUCCESS
        \<or> type action = LOAD_USER_SUCCESS then
       state\<lparr>user := payload action, isAuthenticated := True, isLoading := False,
         error := JNull\<rparr>
     else if type action = LOGIN_FAILURE \<or> type action = REGISTER_FAILURE
        \<or> type action = LOAD_USER_FAILURE then
       state\<lparr>user := JNull, isAuthenticated := False, isLoading := False,
         error := payload action\<rparr>
     else if type action = LOGOUT then
       state\<lparr>user := JNull, isAuthenticated := False, isLoading := False, error := JNull\<rparr>
     else if type action = UPDATE_PROFILE_SUCCESS then
       state\<lparr>user := spread2 (user state) (payload action), error := JNull\<rparr>
     else if type action = CLEAR_ERROR then
       state\<lparr>error := JNull\<rparr>
     else state)"

text \<open>The state after a sequence of actions has been reduced, one action at a time.\<close>

definition run :: "state \<Rightarrow> action list \<Rightarrow> state" where
  "run s acts = foldl authReducer s acts"

section \<open>The action orchestrator\<close>

text \<open>
  What an orchestrator function does that the outside can see: the actions it dispatches,
  its calls \<open>apiService.removeAuthToken()\<close> and \<open>console.error(...)\<close>, in order.
\<close>

datatype effect =
    Dispatch action
  | RemoveAuthToken
  | ConsoleError "jsval list"

text \<open>
  A computation is the list of its effects and its completion: \<open>Inl e\<close> when it throws
  \<open>e\<close> (an \<open>async\<close> function then rejects with \<open>e\<close>), \<open>Inr v\<close> when it returns \<open>v\<close>.
  The API client is a collaborator outside the repository: each orchestrator takes the
  settled outcome of its one collaborator call as an argument of the same shape,
  \<open>Inl e\<close> for a call that raised \<open>e\<close> and \<open>Inr v\<close> for one that returned \<open>v\<close>.
\<close>

type_synonym 'a comp = "effect list \<times> (jsval + 'a)"

definition ret :: "'a \<Rightarrow> 'a comp" where
  "ret v = ([], Inr v)"

definition throw :: "jsval \<Rightarrow> 'a comp" where
  "throw e = ([], Inl e)"

definition await :: "jsval + 'a \<Rightarrow> 'a comp" where
  "await outcome = ([], outcome)"

definition dispatch :: "action \<Rightarrow> unit comp" where
  "dispatch a = ([Dispatch a], Inr ())"

definition removeAuthToken :: "unit comp" where
  "removeAuthToken = ([RemoveAuthToken], Inr ())"

definition console_error :: "jsval list \<Rightarrow> unit comp" where
  "console_error args = ([ConsoleError args], Inr ())"

text \<open>Sequencing: the rest of a block runs only when the statement before it did not throw.\<close>

definition then_do :: "'a comp \<Rightarrow> ('a \<Rightarrow> 'b comp) \<Rightarrow> 'b comp" where
  "then_do p k =
    (case p of
      (es, Inl e) \<Rightarrow> (es, Inl e)
    | (es, Inr v) \<Rightarrow> (case k v of (es', r) \<Rightarrow> (es @ es', r)))"

text \<open>\<open>try { p } catch (error) { h error }\<close>\<close>

definition try_catch :: "'a comp \<Rightarrow> (jsval \<Rightarrow> 'a comp) \<Rightarrow> 'a comp" where
  "try_catch p h =
    (case p of
      (es, Inl e) \<Rightarrow> (case h e of (es', r) \<Rightarrow> (es @ es', r))
    | (es, Inr v) \<Rightarrow> (es, Inr v))"

text \<open>
  \<open>try { p } finally { f }\<close>: \<open>f\<close> always runs; the completion is that of \<open>p\<close> unless
  \<open>f\<close> itself throws.
\<close>

definition try_finally :: "'a comp \<Rightarrow> unit comp \<Rightarrow> 'a comp" where
  "try_finally p f =
    (case p of (es, r) \<Rightarrow>
      (case f of
        (es', Inl e') \<Rightarrow> (es @ es', Inl e')
      | (es', Inr u) \<Rightarrow> (es @ es', r)))"

text \<open>
  Reading a property: of \<open>null\<close> or \<open>undefined\<close> it throws a \<open>TypeError\<close>, whose message
  text is the engine's own and is taken as the parameter \<open>tem\<close>; of any other value it
  gives the property, \<open>undefined\<close> when there is none. Properties found through a
  prototype (such as \<open>length\<close>) are not represented; the code reads \<open>user\<close> and
  \<open>message\<close> only. An error object is an object with a \<open>message\<close> property.
\<close>

definition type_error :: "string \<Rightarrow> jsval" where
  "type_error msg = JObj (fmupd ''message'' (JStr msg) fmempty)"

definition get_member :: "(jsval \<Rightarrow> string \<Rightarrow> string) \<Rightarrow> jsval \<Rightarrow> string \<Rightarrow> jsval comp" where
  "get_member tem v k =
    (if absent v then throw (type_error (tem v k))
     else ret (case fmlookup (own_props v) k of None \<Rightarrow> JUndefined | Some x \<Rightarrow> x))"

text \<open>
  \<open>loadUser\<close>, run once when the provider mounts. \<open>token\<close> is what
  \<open>apiService.getAuthToken()\<close> returned, \<open>getProfile\<close> the outcome of
  \<open>apiService.getProfile()\<close> (not called when there is no token).
\<close>

definition loadUser :: "(jsval \<Rightarrow> string \<Rightarrow> string) \<Rightarrow> jsval \<Rightarrow> jsval + jsval \<Rightarrow> jsval comp" where
  "loadUser tem token getProfile =
    (if \<not> truthy token then
       then_do (dispatch \<lparr>type = LOAD_USER_FAILURE, payload = JStr ''No token found''\<rparr>)
         (\<lambda>_. ret JUndefined)
     else
       then_do
         (try_catch
           (then_do (dispatch \<lparr>type = LOAD_USER_START, payload = JUndefined\<rparr>) (\<lambda>_.
            then_do (await getProfile) (\<lambda>user.
            dispatch \<lparr>type = LOAD_USER_SUCCESS, payload = user\<rparr>)))
           (\<lambda>error.
            then_do (get_member tem error ''message'') (\<lambda>message.
            then_do (dispatch \<lparr>type = LOAD_USER_FAILURE, payload = message\<rparr>) (\<lambda>_.
            removeAuthToken))))
         (\<lambda>_. ret JUndefined))"

definition login :: "(jsval \<Rightarrow> string \<Rightarrow> string) \<Rightarrow> jsval + jsval \<Rightarrow> jsval comp" where
  "login tem apiLogin =
    try_catch
      (then_do (dispatch \<lparr>type = LOGIN_START, payload = JUndefined\<rparr>) (\<lambda>_.
       then_do (await apiLogin) (\<lambda>response.
       then_do (get_member tem response ''user'') (\<lambda>response_user.
       then_do (dispatch \<lparr>type = LOGIN_SUCCESS, payload = response_user\<rparr>) (\<lambda>_.
       ret response)))))
      (\<lambda>error.
       then_do (get_member tem error ''message'') (\<lambda>message.
       then_do (dispatch \<lparr>type = LOGIN_FAILURE, payload = message\<rparr>) (\<lambda>_.
       throw error)))"

definition register :: "(jsval \<Rightarrow> string \<Rightarrow> string) \<Rightarrow> jsval + jsval \<Rightarrow> jsval comp" where
  "register tem apiRegister =
    try_catch
      (then_do (dispatch \<lparr>type = REGISTER_START, payload = JUndefined\<rparr>) (\<lambda>_.
       then_do (await apiRegister) (\<lambda>response.
       then_do (get_member tem response ''user'') (\<lambda>response_user.
       then_do (dispatch \<lparr>type = REGISTER_SUCCESS, payload = response_user\<rparr>) (\<lambda>_.
       ret response)))))
      (\<lambda>error.
       then_do (get_member tem error ''message'') (\<lambda>message.
       then_do (dispatch \<lparr>type = REGISTER_FAILURE, payload = message\<rparr>) (\<lambda>_.
       throw error)))"

definition logout :: "jsval + jsval \<Rightarrow> jsval comp" where
  "logout apiLogout =
    then_do
      (try_finally
        (try_catch
          (then_do (await apiLogout) (\<lambda>_. ret ()))
          (\<lambda>error. console_error [JStr ''Logout error:'', error]))
        (dispatch \<lparr>type = LOGOUT, payload = JUndefined\<rparr>))
      (\<lambda>_. ret JUndefined)"

text \<open>The three delegating functions as \<open>AuthContext.jsx\<close> has them.\<close>

definition updateProfile :: "jsval + jsval \<Rightarrow> jsval comp" where
  "updateProfile apiUpdateProfile =
    then_do (await apiUpdateProfile) (\<lambda>updatedUser.
    then_do (dispatch \<lparr>type = UPDATE_PROFILE_SUCCESS, payload = updatedUser\<rparr>) (\<lambda>_.
    ret updatedUser))"

definition forgotPassword :: "jsval + jsval \<Rightarrow> jsval comp" where
  "forgotPassword apiForgotPassword = await apiForgotPassword"

definition resetPassword :: "jsval + jsval \<Rightarrow> jsval comp" where
  "resetPassword apiResetPassword = await apiResetPassword"

text \<open>
  The same three in the second copy of the provider (\<open>part_000\<close>), where each body is
  wrapped in \<open>try { ... } catch (error) { throw error; }\<close>.
\<close>

definition updateProfile_part_000 :: "jsval + jsval \<Rightarrow> jsval comp" where
  "updateProfile_part_000 apiUpdateProfile =
    try_catch
      (then_do (await apiUpdateProfile) (\<lambda>updatedUser.
       then_do (dispatch \<lparr>type = UPDATE_PROFILE_SUCCESS, payload = updatedUser\<rparr>) (\<lambda>_.
       ret updatedUser)))
      (\<lambda>error. throw error)"

definition forgotPassword_part_000 :: "jsval + jsval \<Rightarrow> jsval comp" where
  "forgotPassword_part_000 apiForgotPassword =
    try_catch (await apiForgotPassword) (\<lambda>error. throw error)"

definition resetPassword_part_000 :: "jsval + jsval \<Rightarrow> jsval comp" where
  "resetPassword_part_000 apiResetPassword =
    try_catch (await apiResetPassword) (\<lambda>error. throw error)"

definition clearError :: "unit comp" where
  "clearError = dispatch \<lparr>type = CLEAR_ERROR, payload = JUndefined\<rparr>"

text \<open>The actions among the effects, and the store after an orchestrator has run.\<close>

fun dispatched :: "effect list \<Rightarrow> action list" where
  "dispatched [] = []"
| "dispatched (Dispatch a # es) = a # dispatched es"
| "dispatched (RemoveAuthToken # es) = dispatched es"
| "dispatched (ConsoleError args # es) = dispatched es"

definition state_after :: "state \<Rightarrow> 'a comp \<Rightarrow> state" where
  "state_after s c = run s (dispatched (fst c))"

section \<open>The invariant of the state and the actions that keep it\<close>

text \<open>\<open>isAuthenticated\<close> is true exactly when \<open>user\<close> is present.\<close>

definition auth_iff_user :: "state \<Rightarrow> bool" where
  "auth_iff_user s = (isAuthenticated s = present (user s))"

definition is_success :: "action \<Rightarrow> bool" where
  "is_success a =
    (type a = LOGIN_SUCCESS \<or> type a = REGISTER_SUCCESS \<or> type a = LOAD_USER_SUCCESS)"

text \<open>
  The condition on one action under which the reducer keeps the invariant: a success
  action carries a present payload, and a profile update arrives in an authenticated
  state. Every other action is unconstrained.
\<close>

definition step_ok :: "state \<Rightarrow> action \<Rightarrow> bool" where
  "step_ok s a =
    (if is_success a then present (payload a)
     else if type a = UPDATE_PROFILE_SUCCESS then isAuthenticated s
     else True)"

fun admissible :: "state \<Rightarrow> action list \<Rightarrow> bool" where
  "admissible s [] = True"
| "admissible s (a # acts) = (step_ok s a \<and> admissible (authReducer s a) acts)"

section \<open>Facts used throughout\<close>

lemmas AUTH_ACTIONS =
  LOGIN_START_def LOGIN_SUCCESS_def LOGIN_FAILURE_def LOGOUT_def
  REGISTER_START_def REGISTER_SUCCESS_def REGISTER_FAILURE_def
  LOAD_USER_START_def LOAD_USER_SUCCESS_def LOAD_USER_FAILURE_def
  UPDATE_PROFILE_SUCCESS_def CLEAR_ERROR_def


lemmas comp_defs =
  ret_def throw_def await_def dispatch_def removeAuthToken_def console_error_def
  then_do_def try_catch_def try_finally_def

text \<open>An absent token is a falsy one, which is what \<open>loadUser\<close> tests.\<close>

lemma absent_not_truthy: "absent v \<Longrightarrow> \<not> truthy v"
  by (auto simp add: absent_def)

text \<open>
  From a state that satisfies the invariant, one reduction keeps it exactly when the
  action meets \<open>step_ok\<close>.
\<close>

lemma step_ok_exact:
  assumes "auth_iff_user s"
  shows "auth_iff_user (authReducer s a) = step_ok s a"
  using assms
  by (auto simp add: auth_iff_user_def step_ok_def is_success_def authReducer_def
      AUTH_ACTIONS present_def absent_def spread2_def)

lemma auth_iff_user_run:
  "auth_iff_user s \<Longrightarrow> admissible s acts \<Longrightarrow> auth_iff_user (run s acts)"
proof (induction acts arbitrary: s)
  case Nil
  then show ?case by (simp add: run_def)
next
  case (Cons a acts)
  from Cons.prems have "auth_iff_user (authReducer s a)"
    by (simp add: step_ok_exact)
  moreover from Cons.prems have "admissible (authReducer s a) acts"
    by simp
  ultimately have "auth_iff_user (run (authReducer s a) acts)"
    by (rule Cons.IH)
  then show ?case by (simp add: run_def)
qed

lemma auth_iff_user_initialState: "auth_iff_user initialState"
  by (simp add: auth_iff_user_def initialState_def present_def absent_def)

section \<open>The reducer, case by case\<close>

text \<open>
  C8. For every state and every start action (\<open>LOGIN_START\<close>, \<open>REGISTER_START\<close>,
  \<open>LOAD_USER_START\<close>), whatever its payload, the reduced state has \<open>isLoading\<close> true and
  \<open>error\<close> null.
\<close>

theorem start_sets_loading_clears_error:
  "isLoading (authReducer s \<lparr>type = LOGIN_START, payload = p\<rparr>) = True
   \<and> error (authReducer s \<lparr>type = LOGIN_START, payload = p\<rparr>) = JNull
   \<and> isLoading (authReducer s \<lparr>type = REGISTER_START, payload = p\<rparr>) = True
   \<and> error (authReducer s \<lparr>type = REGISTER_START, payload = p\<rparr>) = JNull
   \<and> isLoading (authReducer s \<lparr>type = LOAD_USER_START, payload = p\<rparr>) = True
   \<and> error (authReducer s \<lparr>type = LOAD_USER_START, payload = p\<rparr>) = JNull"
  by (simp add: authReducer_def AUTH_ACTIONS)

text \<open>
  C9. For every state and every start action, the reduced state has the \<open>user\<close> and the
  \<open>isAuthenticated\<close> of the state before: a user who is present and authenticated stays so
  while a login, a registration or a load is in flight.
\<close>

theorem start_keeps_user_and_authentication:
  "user (authReducer s \<lparr>type = LOGIN_START, payload = p\<rparr>) = user s
   \<and> isAuthenticated (authReducer s \<lparr>type = LOGIN_START, payload = p\<rparr>) = isAuthenticated s
   \<and> user (authReducer s \<lparr>type = REGISTER_START, payload = p\<rparr>) = user s
   \<and> isAuthenticated (authReducer s \<lparr>type = REGISTER_START, payload = p\<rparr>) = isAuthenticated s
   \<and> user (authReducer s \<lparr>type = LOAD_USER_START, payload = p\<rparr>) = user s
   \<and> isAuthenticated (authReducer s \<lparr>type = LOAD_USER_START, payload = p\<rparr>) = isAuthenticated s"
  by (simp add: authReducer_def AUTH_ACTIONS)

text \<open>
  C2. For every state and every success action (\<open>LOGIN_SUCCESS\<close>, \<open>REGISTER_SUCCESS\<close>,
  \<open>LOAD_USER_SUCCESS\<close>) with payload \<open>p\<close>, the reduced state has \<open>user\<close> equal to \<open>p\<close>,
  \<open>isAuthenticated\<close> true, \<open>isLoading\<close> false and \<open>error\<close> null.
\<close>

theorem success_sets_user_and_authenticates:
  "authReducer s \<lparr>type = LOGIN_SUCCESS, payload = p\<rparr>
     = s\<lparr>user := p, isAuthenticated := True, isLoading := False, error := JNull\<rparr>
   \<and> authReducer s \<lparr>type = REGISTER_SUCCESS, payload = p\<rparr>
     = s\<lparr>user := p, isAuthenticated := True, isLoading := False, error := JNull\<rparr>
   \<and> authReducer s \<lparr>type = LOAD_USER_SUCCESS, payload = p\<rparr>
     = s\<lparr>user := p, isAuthenticated := True, isLoading := False, error := JNull\<rparr>"
  by (simp add: authReducer_def AUTH_ACTIONS)

text \<open>
  C3. For every state and every failure action (\<open>LOGIN_FAILURE\<close>, \<open>REGISTER_FAILURE\<close>,
  \<open>LOAD_USER_FAILURE\<close>) with payload \<open>m\<close>, the reduced state has \<open>user\<close> null,
  \<open>isAuthenticated\<close> false, \<open>isLoading\<close> false and \<open>error\<close> equal to \<open>m\<close>.
\<close>

theorem failure_clears_user_and_records_error:
  "authReducer s \<lparr>type = LOGIN_FAILURE, payload = m\<rparr>
     = s\<lparr>user := JNull, isAuthenticated := False, isLoading := False, error := m\<rparr>
   \<and> authReducer s \<lparr>type = REGISTER_FAILURE, payload = m\<rparr>
     = s\<lparr>user := JNull, isAuthenticated := False, isLoading := False, error := m\<rparr>
   \<and> authReducer s \<lparr>type = LOAD_USER_FAILURE, payload = m\<rparr>
     = s\<lparr>user := JNull, isAuthenticated := False, isLoading := False, error := m\<rparr>"
  by (simp add: authReducer_def AUTH_ACTIONS)

text \<open>
  C6. Reducing a profile-updated action merges the payload's properties into those of the
  existing user: a property of the merged user is the payload's where the payload has
  one, the old user's otherwise; \<open>error\<close> becomes null. In particular the payload
  \<open>{name: "X"}\<close> on the user \<open>{name: "A", email: "a@b.c"}\<close> gives the user
  \<open>{name: "X", email: "a@b.c"}\<close>.
\<close>

theorem profile_updated_merges_payload:
  "fmlookup (own_props (user (authReducer s \<lparr>type = UPDATE_PROFILE_SUCCESS, payload = p\<rparr>))) k
     = (case fmlookup (own_props p) k of
          Some v \<Rightarrow> Some v
        | None \<Rightarrow> fmlookup (own_props (user s)) k)
   \<and> error (authReducer s \<lparr>type = UPDATE_PROFILE_SUCCESS, payload = p\<rparr>) = JNull
   \<and> authReducer
        (s\<lparr>user := JObj (fmupd ''name'' (JStr ''A'')
                        (fmupd ''email'' (JStr ''a@b.c'') fmempty))\<rparr>)
        \<lparr>type = UPDATE_PROFILE_SUCCESS,
         payload = JObj (fmupd ''name'' (JStr ''X'') fmempty)\<rparr>
     = s\<lparr>user := JObj (fmupd ''name'' (JStr ''X'')
                       (fmupd ''email'' (JStr ''a@b.c'') fmempty)),
         error := JNull\<rparr>"
proof -
  have merged: "fmlookup (own_props (user (authReducer s
        \<lparr>type = UPDATE_PROFILE_SUCCESS, payload = p\<rparr>))) k
     = (case fmlookup (own_props p) k of
          Some v \<Rightarrow> Some v
        | None \<Rightarrow> fmlookup (own_props (user s)) k)"
    by (simp add: authReducer_def AUTH_ACTIONS spread2_def fmlookup_dom_iff
        split: option.splits)
  have cleared: "error (authReducer s \<lparr>type = UPDATE_PROFILE_SUCCESS, payload = p\<rparr>) = JNull"
    by (simp add: authReducer_def AUTH_ACTIONS)
  have scenario: "authReducer
        (s\<lparr>user := JObj (fmupd ''name'' (JStr ''A'')
                        (fmupd ''email'' (JStr ''a@b.c'') fmempty))\<rparr>)
        \<lparr>type = UPDATE_PROFILE_SUCCESS,
         payload = JObj (fmupd ''name'' (JStr ''X'') fmempty)\<rparr>
     = s\<lparr>user := JObj (fmupd ''name'' (JStr ''X'')
                       (fmupd ''email'' (JStr ''a@b.c'') fmempty)),
         error := JNull\<rparr>"
    by (simp add: authReducer_def AUTH_ACTIONS spread2_def)
  from merged cleared scenario show ?thesis by blast
qed

text \<open>
  C10. Reducing a profile-updated action on a state whose user is absent gives a user
  that is the object of exactly the payload's properties; and on every state the action
  leaves \<open>isAuthenticated\<close> and \<open>isLoading\<close> as they were.
\<close>

theorem profile_updated_on_absent_user:
  "(absent (user s) \<longrightarrow>
      user (authReducer s \<lparr>type = UPDATE_PROFILE_SUCCESS, payload = p\<rparr>)
        = JObj (own_props p))
   \<and> isAuthenticated (authReducer s \<lparr>type = UPDATE_PROFILE_SUCCESS, payload = p\<rparr>)
        = isAuthenticated s
   \<and> isLoading (authReducer s \<lparr>type = UPDATE_PROFILE_SUCCESS, payload = p\<rparr>)
        = isLoading s"
  by (auto simp add: authReducer_def AUTH_ACTIONS spread2_def absent_def)

theorem profile_updated_on_absent_user_witness:
  "absent (user initialState)
   \<and> authReducer initialState
       \<lparr>type = UPDATE_PROFILE_SUCCESS,
        payload = JObj (fmupd ''name'' (JStr ''X'') fmempty)\<rparr>
     = \<lparr>user = JObj (fmupd ''name'' (JStr ''X'') fmempty), isAuthenticated = False,
        isLoading = True, error = JNull\<rparr>"
proof -
  have a: "absent (user initialState)"
    by (simp add: absent_def initialState_def)
  have e: "error (authReducer initialState
       \<lparr>type = UPDATE_PROFILE_SUCCESS,
        payload = JObj (fmupd ''name'' (JStr ''X'') fmempty)\<rparr>) = JNull"
    by (simp add: authReducer_def AUTH_ACTIONS)
  from a e
    profile_updated_on_absent_user
      [of initialState "JObj (fmupd ''name'' (JStr ''X'') fmempty)"]
  show ?thesis by (simp add: initialState_def)
qed

section \<open>The orchestrator functions\<close>

text \<open>
  C4. Whether the collaborator's logout call returns or raises, \<open>logout\<close> dispatches the
  one action \<open>LOGOUT\<close>, returns normally to its caller, and leaves the store logged out:
  \<open>user\<close> null, \<open>isAuthenticated\<close> false, \<open>isLoading\<close> false, \<open>error\<close> null.
\<close>

theorem logout_always_logs_out:
  "state_after s (logout apiLogout)
     = \<lparr>user = JNull, isAuthenticated = False, isLoading = False, error = JNull\<rparr>
   \<and> snd (logout apiLogout) = Inr JUndefined
   \<and> dispatched (fst (logout apiLogout)) = [\<lparr>type = LOGOUT, payload = JUndefined\<rparr>]"
  by (cases apiLogout)
    (simp_all add: logout_def comp_defs state_after_def run_def authReducer_def AUTH_ACTIONS)

text \<open>
  C5. When the stored token is absent (the code tests that it is falsy), \<open>loadUser\<close>
  has one effect, the dispatch of \<open>LOAD_USER_FAILURE\<close> with the message
  \<open>No token found\<close>, and returns; from the initial state, whose \<open>isLoading\<close> is true,
  the store ends with \<open>user\<close> null, \<open>isAuthenticated\<close> false, \<open>isLoading\<close> false and
  \<open>error\<close> \<open>No token found\<close>.
\<close>

theorem loadUser_without_token:
  assumes "\<not> truthy token"
  shows "fst (loadUser tem token getProfile)
           = [Dispatch \<lparr>type = LOAD_USER_FAILURE, payload = JStr ''No token found''\<rparr>]
    \<and> snd (loadUser tem token getProfile) = Inr JUndefined
    \<and> isLoading initialState
    \<and> state_after initialState (loadUser tem token getProfile)
         = \<lparr>user = JNull, isAuthenticated = False, isLoading = False,
             error = JStr ''No token found''\<rparr>"
  using assms
  by (simp add: loadUser_def comp_defs state_after_def run_def authReducer_def
      AUTH_ACTIONS initialState_def)

theorem loadUser_without_token_witness:
  "absent JNull \<and> \<not> truthy JNull
   \<and> fst (loadUser (\<lambda>v k. []) JNull (Inr JNull))
       = [Dispatch \<lparr>type = LOAD_USER_FAILURE, payload = JStr ''No token found''\<rparr>]
   \<and> state_after initialState (loadUser (\<lambda>v k. []) JNull (Inr JNull))
       = \<lparr>user = JNull, isAuthenticated = False, isLoading = False,
          error = JStr ''No token found''\<rparr>"
  using loadUser_without_token [of JNull "\<lambda>v k. []" "Inr JNull"]
  by (simp add: absent_def)

text \<open>
  C7. When the collaborator call of \<open>updateProfile\<close>, \<open>forgotPassword\<close> or
  \<open>resetPassword\<close> raises \<open>e\<close>, the function has no effect (it dispatches nothing, so
  the store is unchanged) and throws \<open>e\<close> to its caller, in both copies of the provider;
  when the collaborator call of \<open>updateProfile\<close> returns \<open>u\<close>, the one effect is the
  dispatch of \<open>UPDATE_PROFILE_SUCCESS\<close> with payload \<open>u\<close>, and \<open>u\<close> is returned.
\<close>

theorem delegates_propagate_failure:
  "updateProfile (Inl e) = ([], Inl e)
   \<and> forgotPassword (Inl e) = ([], Inl e)
   \<and> resetPassword (Inl e) = ([], Inl e)
   \<and> updateProfile_part_000 (Inl e) = ([], Inl e)
   \<and> forgotPassword_part_000 (Inl e) = ([], Inl e)
   \<and> resetPassword_part_000 (Inl e) = ([], Inl e)
   \<and> state_after s (updateProfile (Inl e)) = s
   \<and> state_after s (forgotPassword (Inl e)) = s
   \<and> state_after s (resetPassword (Inl e)) = s
   \<and> state_after s (updateProfile_part_000 (Inl e)) = s
   \<and> state_after s (forgotPassword_part_000 (Inl e)) = s
   \<and> state_after s (resetPassword_part_000 (Inl e)) = s
   \<and> updateProfile (Inr u)
        = ([Dispatch \<lparr>type = UPDATE_PROFILE_SUCCESS, payload = u\<rparr>], Inr u)
   \<and> updateProfile_part_000 (Inr u)
        = ([Dispatch \<lparr>type = UPDATE_PROFILE_SUCCESS, payload = u\<rparr>], Inr u)"
  by (simp add: updateProfile_def forgotPassword_def resetPassword_def
      updateProfile_part_000_def forgotPassword_part_000_def resetPassword_part_000_def
      comp_defs state_after_def run_def)

section \<open>The invariant over reachable states\<close>

text \<open>
  C1, as stated, fails: the reducer checks no payload. When the collaborator's login
  returns an object without a \<open>user\<close> property, \<open>login\<close> dispatches \<open>LOGIN_SUCCESS\<close>
  with payload \<open>undefined\<close>, and the store has \<open>isAuthenticated\<close> true with no user.
  When the profile is updated in the logged-out store (here after \<open>loadUser\<close> found no
  token), the merge makes a user object while \<open>isAuthenticated\<close> stays false.
\<close>

theorem auth_iff_user_counterexample:
  "\<not> auth_iff_user
       (state_after initialState (login (\<lambda>v k. ''unreadable'') (Inr (JObj fmempty))))
   \<and> \<not> auth_iff_user
       (state_after
         (state_after initialState (loadUser (\<lambda>v k. ''unreadable'') JNull (Inr JNull)))
         (updateProfile (Inr (JObj (fmupd ''name'' (JStr ''X'') fmempty)))))"
  by (simp add: login_def loadUser_def updateProfile_def get_member_def comp_defs
      state_after_def run_def authReducer_def AUTH_ACTIONS auth_iff_user_def
      initialState_def present_def absent_def spread2_def)

text \<open>
  C1, amended. For every state reached from the initial state by reducing a sequence of
  actions in which each success action carries a present payload and each profile update
  is reduced in a state whose \<open>isAuthenticated\<close> is true, \<open>isAuthenticated\<close> is true
  if and only if \<open>user\<close> is present.
\<close>

theorem auth_iff_user_reachable:
  "admissible initialState acts \<Longrightarrow> auth_iff_user (run initialState acts)"
  by (rule auth_iff_user_run [OF auth_iff_user_initialState])

theorem auth_iff_user_reachable_witness:
  "admissible initialState
     [\<lparr>type = LOAD_USER_FAILURE, payload = JStr ''No token found''\<rparr>,
      \<lparr>type = LOGIN_START, payload = JUndefined\<rparr>,
      \<lparr>type = LOGIN_SUCCESS, payload = JObj (fmupd ''name'' (JStr ''A'') fmempty)\<rparr>,
      \<lparr>type = UPDATE_PROFILE_SUCCESS, payload = JObj (fmupd ''name'' (JStr ''X'') fmempty)\<rparr>,
      \<lparr>type = CLEAR_ERROR, payload = JUndefined\<rparr>]
   \<and> auth_iff_user (run initialState
     [\<lparr>type = LOAD_USER_FAILURE, payload = JStr ''No token found''\<rparr>,
      \<lparr>type = LOGIN_START, payload = JUndefined\<rparr>,
      \<lparr>type = LOGIN_SUCCESS, payload = JObj (fmupd ''name'' (JStr ''A'') fmempty)\<rparr>,
      \<lparr>type = UPDATE_PROFILE_SUCCESS, payload = JObj (fmupd ''name'' (JStr ''X'') fmempty)\<rparr>,
      \<lparr>type = CLEAR_ERROR, payload = JUndefined\<rparr>])
   \<and> isAuthenticated (run initialState
     [\<lparr>type = LOAD_USER_FAILURE, payload = JStr ''No token found''\<rparr>,
      \<lparr>type = LOGIN_START, payload = JUndefined\<rparr>,
      \<lparr>type = LOGIN_SUCCESS, payload = JObj (fmupd ''name'' (JStr ''A'') fmempty)\<rparr>,
      \<lparr>type = UPDATE_PROFILE_SUCCESS, payload = JObj (fmupd ''name'' (JStr ''X'') fmempty)\<rparr>,
      \<lparr>type = CLEAR_ERROR, payload = JUndefined\<rparr>])"
proof -
  let ?acts = "[\<lparr>type = LOAD_USER_FAILURE, payload = JStr ''No token found''\<rparr>,
      \<lparr>type = LOGIN_START, payload = JUndefined\<rparr>,
      \<lparr>type = LOGIN_SUCCESS, payload = JObj (fmupd ''name'' (JStr ''A'') fmempty)\<rparr>,
      \<lparr>type = UPDATE_PROFILE_SUCCESS, payload = JObj (fmupd ''name'' (JStr ''X'') fmempty)\<rparr>,
      \<lparr>type = CLEAR_ERROR, payload = JUndefined\<rparr>]"
  have adm: "admissible initialState ?acts"
    by (simp add: step_ok_def is_success_def authReducer_def AUTH_ACTIONS initialState_def
        present_def absent_def)
  have auth: "isAuthenticated (run initialState ?acts)"
    by (simp add: run_def authReducer_def AUTH_ACTIONS initialState_def)
  from adm auth_iff_user_reachable [OF adm] auth show ?thesis by simp
qed

end
